theory Spec2Isabelle
  imports Main
begin

section \<open>Element model (types.ts)\<close>

text \<open>
  The keys of \<^verbatim>\<open>HeadAttributeTypeMap\<close> (\<^verbatim>\<open>AttributeTypeMap\<close> in the older
  declaration file) form the closed union \<^verbatim>\<open>'meta' | 'link' | 'script' | 'style'\<close>.
\<close>

datatype kind = Meta | Link | Script | Style

text \<open>The string literal each member of the union is at run time.\<close>

fun kind_name :: "kind \<Rightarrow> string" where
  "kind_name Meta = ''meta''"
| "kind_name Link = ''link''"
| "kind_name Script = ''script''"
| "kind_name Style = ''style''"

text \<open>
  The values an attribute can hold: \<^verbatim>\<open>undefined\<close>, \<^verbatim>\<open>null\<close>, booleans, numbers, big
  integers, strings, and ordinary objects, which inherit from \<^verbatim>\<open>Object.prototype\<close>
  directly and are given by the list of their own properties, named by strings. The
  numbers are those with an integer value in the safe range, from \<open>-(2^53 - 1)\<close> to
  \<open>2^53 - 1\<close>; fractions, \<^verbatim>\<open>NaN\<close> and the infinities, and functions, symbols and arrays,
  are left out.
\<close>

typedef safe_integer = "{n :: int. - 9007199254740992 < n \<and> n < 9007199254740992}"
  by (rule exI [of _ 0]) simp

datatype jsval =
    JSUndefined
  | JSNull
  | JSBoolean bool
  | JSNumber safe_integer
  | JSBigInt int
  | JSString string
  | JSObject "(string \<times> jsval) list"

text \<open>
  The own properties of an attributes object: a finite mapping from property names to
  values. A property that is present with the value \<^verbatim>\<open>undefined\<close> is in the domain,
  bound to \<^const>\<open>JSUndefined\<close>. Spreading an attributes object into another object
  copies exactly these properties.
\<close>

type_synonym attrs = "string \<rightharpoonup> jsval"

text \<open>\<^verbatim>\<open>HeadElement = { type: T; attributes: HeadAttributeTypeMap[T] }\<close>\<close>

record HeadElement =
  type :: kind
  attributes :: attrs

text \<open>\<^verbatim>\<open>URL\<close> values are only stored and returned; their text stands for them.\<close>

type_synonym url = string

section \<open>Conversion to a string (host language)\<close>

text \<open>
  The decimal text of a natural number, as the template literal \<^verbatim>\<open>${index}\<close> gives it
  for an array index: no sign, no leading zero.
\<close>

definition digit_char :: "nat \<Rightarrow> char" where
  "digit_char d = ''0123456789'' ! d"

fun string_of_index :: "nat \<Rightarrow> string" where
  "string_of_index n =
     (if n < 10 then [digit_char n]
      else string_of_index (n div 10) @ [digit_char (n mod 10)])"

declare string_of_index.simps [simp del]

text \<open>The decimal text of an integer: a minus sign before a negative one.\<close>

definition string_of_integer :: "int \<Rightarrow> string" where
  "string_of_integer n =
     (if n < 0 then CHR ''-'' # string_of_index (nat (- n)) else string_of_index (nat n))"

text \<open>The exception a conversion throws.\<close>

datatype error = TypeError

text \<open>
  \<^verbatim>\<open>String(value)\<close>, which \<^verbatim>\<open>getChildren\<close> calls, and \<^verbatim>\<open>'' + value\<close>, by which the
  rendering framework turns a key into a string. Both are the host's, not code of the
  library, and on the values of \<^typ>\<open>jsval\<close> they give the same result. A primitive value
  has its text. An object is converted through its \<^verbatim>\<open>toString\<close> and \<^verbatim>\<open>valueOf\<close>
  methods: the inherited \<^verbatim>\<open>toString\<close> gives \<^verbatim>\<open>[object Object]\<close> and the inherited
  \<^verbatim>\<open>valueOf\<close> gives the object back, which is no primitive. An own property named
  \<^verbatim>\<open>toString\<close> hides the inherited method and, holding one of these values, cannot be
  called; an own \<^verbatim>\<open>valueOf\<close> is either skipped for the same reason or absent, and the
  inherited one does not help: the conversion then throws a \<^verbatim>\<open>TypeError\<close>.
\<close>

fun js_String :: "jsval \<Rightarrow> error + string" where
  "js_String JSUndefined = Inr ''undefined''"
| "js_String JSNull = Inr ''null''"
| "js_String (JSBoolean b) = Inr (if b then ''true'' else ''false'')"
| "js_String (JSNumber n) = Inr (string_of_integer (Rep_safe_integer n))"
| "js_String (JSBigInt n) = Inr (string_of_integer n)"
| "js_String (JSString s) = Inr s"
| "js_String (JSObject ps) =
     (if ''toString'' \<in> set (map fst ps) then Inl TypeError else Inr ''[object Object]'')"

section \<open>The raw builder (index.ts)\<close>

text \<open>
  The class has the private fields \<^verbatim>\<open>metadataBase?: URL\<close> and
  \<^verbatim>\<open>elements: HeadElement[] = []\<close>. A method that mutates \<^verbatim>\<open>this\<close> and returns it is a
  function from the state to the new state.
\<close>

record index_HeadBuilder =
  index_metadataBase :: "url option"
  index_elements :: "HeadElement list"

definition index_constructor :: "url option \<Rightarrow> index_HeadBuilder" where
  "index_constructor metadataBase =
     \<lparr>index_metadataBase = metadataBase, index_elements = []\<rparr>"

definition index_addElement :: "kind \<Rightarrow> attrs \<Rightarrow> index_HeadBuilder \<Rightarrow> index_HeadBuilder" where
  "index_addElement t a this =
     this\<lparr>index_elements := index_elements this @ [\<lparr>type = t, attributes = a\<rparr>]\<rparr>"

definition index_getMetadataBase :: "index_HeadBuilder \<Rightarrow> url option" where
  "index_getMetadataBase this = index_metadataBase this"

definition index_addMeta :: "attrs \<Rightarrow> index_HeadBuilder \<Rightarrow> index_HeadBuilder" where
  "index_addMeta a this = index_addElement Meta a this"

definition index_addLink :: "attrs \<Rightarrow> index_HeadBuilder \<Rightarrow> index_HeadBuilder" where
  "index_addLink a this = index_addElement Link a this"

definition index_addScript :: "attrs \<Rightarrow> index_HeadBuilder \<Rightarrow> index_HeadBuilder" where
  "index_addScript a this = index_addElement Script a this"

definition index_addStyle :: "attrs \<Rightarrow> index_HeadBuilder \<Rightarrow> index_HeadBuilder" where
  "index_addStyle a this = index_addElement Style a this"

text \<open>
  \<^verbatim>\<open>build()\<close> returns \<^verbatim>\<open>this.elements\<close>. The builder after the call is returned beside
  the result, so that what the call does to the state is part of the model.
\<close>

definition index_build :: "index_HeadBuilder \<Rightarrow> HeadElement list \<times> index_HeadBuilder" where
  "index_build this = (index_elements this, this)"

section \<open>The adapter-capable builder (builder.ts)\<close>

text \<open>
  \<^verbatim>\<open>HeadAdapter<T>\<close> is an interface with the single method
  \<^verbatim>\<open>transform(elements: HeadElement[]): T\<close>; an adapter owns no data, so it is the
  function its method computes.
\<close>

type_synonym 'o HeadAdapter = "HeadElement list \<Rightarrow> 'o"

text \<open>The constructor's \<^verbatim>\<open>options\<close> object; both of its fields are optional.\<close>

record 'o options =
  opt_metadataBase :: "url option"
  opt_adapter :: "'o HeadAdapter option"

record 'o HeadBuilder =
  metadataBase :: "url option"
  elements :: "HeadElement list"
  adapter :: "'o HeadAdapter option"

text \<open>
  \<^verbatim>\<open>build(): TOutput\<close> returns either what the adapter made or, through a type
  assertion, the element array itself. The two are kept apart by a tag.
\<close>

datatype 'o TOutput = Elements "HeadElement list" | Adapted 'o

text \<open>
  \<^verbatim>\<open>options?.metadataBase\<close> and \<^verbatim>\<open>options?.adapter\<close>: an absent \<^verbatim>\<open>options\<close> leaves both
  fields \<^verbatim>\<open>undefined\<close>.
\<close>

definition HeadBuilder_constructor :: "'o options option \<Rightarrow> 'o HeadBuilder" where
  "HeadBuilder_constructor opts =
     \<lparr>metadataBase = (case opts of None \<Rightarrow> None | Some p \<Rightarrow> opt_metadataBase p),
      elements = [],
      adapter = (case opts of None \<Rightarrow> None | Some p \<Rightarrow> opt_adapter p)\<rparr>"

definition addElement :: "kind \<Rightarrow> attrs \<Rightarrow> 'o HeadBuilder \<Rightarrow> 'o HeadBuilder" where
  "addElement t a this =
     this\<lparr>elements := elements this @ [\<lparr>type = t, attributes = a\<rparr>]\<rparr>"

definition getMetadataBase :: "'o HeadBuilder \<Rightarrow> url option" where
  "getMetadataBase this = metadataBase this"

definition addMeta :: "attrs \<Rightarrow> 'o HeadBuilder \<Rightarrow> 'o HeadBuilder" where
  "addMeta a this = addElement Meta a this"

definition addLink :: "attrs \<Rightarrow> 'o HeadBuilder \<Rightarrow> 'o HeadBuilder" where
  "addLink a this = addElement Link a this"

definition addScript :: "attrs \<Rightarrow> 'o HeadBuilder \<Rightarrow> 'o HeadBuilder" where
  "addScript a this = addElement Script a this"

definition addStyle :: "attrs \<Rightarrow> 'o HeadBuilder \<Rightarrow> 'o HeadBuilder" where
  "addStyle a this = addElement Style a this"

definition build :: "'o HeadBuilder \<Rightarrow> 'o TOutput \<times> 'o HeadBuilder" where
  "build this =
     (case adapter this of
        Some t \<Rightarrow> (Adapted (t (elements this)), this)
      | None \<Rightarrow> (Elements (elements this), this))"

section \<open>Sequences of add-calls\<close>

text \<open>
  One call of a public add-method, with its argument; a caller's chain
  \<^verbatim>\<open>b.addMeta(a1).addLink(a2)...\<close> is a list of them, run from left to right.
\<close>

datatype add_call = AddMeta attrs | AddLink attrs | AddScript attrs | AddStyle attrs

fun index_call :: "index_HeadBuilder \<Rightarrow> add_call \<Rightarrow> index_HeadBuilder" where
  "index_call b (AddMeta a) = index_addMeta a b"
| "index_call b (AddLink a) = index_addLink a b"
| "index_call b (AddScript a) = index_addScript a b"
| "index_call b (AddStyle a) = index_addStyle a b"

fun call :: "'o HeadBuilder \<Rightarrow> add_call \<Rightarrow> 'o HeadBuilder" where
  "call b (AddMeta a) = addMeta a b"
| "call b (AddLink a) = addLink a b"
| "call b (AddScript a) = addScript a b"
| "call b (AddStyle a) = addStyle a b"

definition index_calls :: "index_HeadBuilder \<Rightarrow> add_call list \<Rightarrow> index_HeadBuilder" where
  "index_calls b cs = foldl index_call b cs"

definition calls :: "'o HeadBuilder \<Rightarrow> add_call list \<Rightarrow> 'o HeadBuilder" where
  "calls b cs = foldl call b cs"

text \<open>The (kind, attributes) pair a call appends, as the record it is stored as.\<close>

fun appended :: "add_call \<Rightarrow> HeadElement" where
  "appended (AddMeta a) = \<lparr>type = Meta, attributes = a\<rparr>"
| "appended (AddLink a) = \<lparr>type = Link, attributes = a\<rparr>"
| "appended (AddScript a) = \<lparr>type = Script, attributes = a\<rparr>"
| "appended (AddStyle a) = \<lparr>type = Style, attributes = a\<rparr>"

section \<open>Shared predicates (utils.ts)\<close>

text \<open>\<^verbatim>\<open>isElementOfType(element, type)\<close> is \<^verbatim>\<open>element.type === type\<close>.\<close>

definition isElementOfType :: "HeadElement \<Rightarrow> kind \<Rightarrow> bool" where
  "isElementOfType element t = (type element = t)"





section \<open>The grouping adapter (HeadTanstackRouterAdapter)\<close>

text \<open>
  \<^verbatim>\<open>HeadTanStackRouterAdapterResult\<close> declares four optional fields, in this order. An
  absent field is \<open>None\<close>.
\<close>

record HeadTanStackRouterAdapterResult =
  links :: "attrs list option"
  scripts :: "attrs list option"
  meta :: "attrs list option"
  styles :: "attrs list option"

text \<open>\<^verbatim>\<open>xs?.push(x)\<close>: nothing happens when \<^verbatim>\<open>xs\<close> is \<^verbatim>\<open>undefined\<close>.\<close>

definition push_optional :: "'a list option \<Rightarrow> 'a \<Rightarrow> 'a list option" where
  "push_optional xs x = (case xs of None \<Rightarrow> None | Some l \<Rightarrow> Some (l @ [x]))"

text \<open>
  The body of the \<^verbatim>\<open>for (const element of elements)\<close> loop, which is the same text in
  both versions of the adapter. An element that matches none of the four tests leaves
  \<^verbatim>\<open>config\<close> as it is.
\<close>

definition classify ::
  "HeadTanStackRouterAdapterResult \<Rightarrow> HeadElement \<Rightarrow> HeadTanStackRouterAdapterResult" where
  "classify config element =
     (if isElementOfType element Meta
        then config\<lparr>meta := push_optional (meta config) (attributes element)\<rparr>
      else if isElementOfType element Link
        then config\<lparr>links := push_optional (links config) (attributes element)\<rparr>
      else if isElementOfType element Script
        then config\<lparr>scripts := push_optional (scripts config) (attributes element)\<rparr>
      else if isElementOfType element Style
        then config\<lparr>styles := push_optional (styles config) (attributes element)\<rparr>
      else config)"

text \<open>The version whose method is \<^verbatim>\<open>transform\<close>.\<close>

definition HeadTanstackRouterAdapter_transform ::
  "HeadElement list \<Rightarrow> HeadTanStackRouterAdapterResult" where
  "HeadTanstackRouterAdapter_transform elems =
     foldl classify
       \<lparr>links = Some [], scripts = Some [], meta = Some [], styles = Some []\<rparr> elems"

text \<open>
  The version with a static method \<^verbatim>\<open>adapter\<close> and an instance method of the same name
  that calls it.
\<close>

definition HeadTanstackRouterAdapter_static_adapter ::
  "HeadElement list \<Rightarrow> HeadTanStackRouterAdapterResult" where
  "HeadTanstackRouterAdapter_static_adapter elems =
     foldl classify
       \<lparr>links = Some [], scripts = Some [], meta = Some [], styles = Some []\<rparr> elems"

definition HeadTanstackRouterAdapter_adapter ::
  "HeadElement list \<Rightarrow> HeadTanStackRouterAdapterResult" where
  "HeadTanstackRouterAdapter_adapter elems =
     HeadTanstackRouterAdapter_static_adapter elems"

section \<open>The element-tree adapter (HeadReactAdapter)\<close>

text \<open>The template literal \<^verbatim>\<open>`head-${type}-${index}`\<close>.\<close>

definition generated_key :: "kind \<Rightarrow> nat \<Rightarrow> string" where
  "generated_key k i = ''head-'' @ kind_name k @ ''-'' @ string_of_index i"

text \<open>
  \<^verbatim>\<open>createElement(type, props)\<close> belongs to the rendering framework. A node is
  the record of the two arguments it was created from; the \<^verbatim>\<open>key\<close> travels inside the
  props object, as in the call. What the framework does with a node afterwards is outside
  the library.
\<close>

record ReactNode =
  node_type :: kind
  node_props :: attrs

definition createElement :: "kind \<Rightarrow> attrs \<Rightarrow> ReactNode" where
  "createElement t props = \<lparr>node_type = t, node_props = props\<rparr>"

text \<open>\<^verbatim>\<open>xs.map((x, index) => f(x, index))\<close>, the index counted from \<open>i\<close>.\<close>

fun map_from :: "nat \<Rightarrow> ('a \<Rightarrow> nat \<Rightarrow> 'b) \<Rightarrow> 'a list \<Rightarrow> 'b list" where
  "map_from i f [] = []"
| "map_from i f (x # xs) = f x i # map_from (Suc i) f xs"

definition Array_map :: "('a \<Rightarrow> nat \<Rightarrow> 'b) \<Rightarrow> 'a list \<Rightarrow> 'b list" where
  "Array_map f xs = map_from 0 f xs"

text \<open>
  The object literal \<^verbatim>\<open>{ key: `head-${type}-${index}`, ...attributes }\<close> writes the
  generated key first and then copies every property of \<^verbatim>\<open>attributes\<close> over it: where
  both have a property, the one from \<^verbatim>\<open>attributes\<close> stays.
\<close>

definition HeadReactAdapter_static_adapter :: "HeadElement list \<Rightarrow> ReactNode list" where
  "HeadReactAdapter_static_adapter elems =
     Array_map (\<lambda>element index.
        createElement (type element)
          ([''key'' \<mapsto> JSString (generated_key (type element) index)]
           ++ attributes element))
       elems"

definition HeadReactAdapter_adapter :: "HeadElement list \<Rightarrow> ReactNode list" where
  "HeadReactAdapter_adapter elems = HeadReactAdapter_static_adapter elems"

text \<open>
  The identity key the framework gives a node: \<^verbatim>\<open>createElement\<close> reads \<^verbatim>\<open>key\<close> from
  the props object and, unless it is \<^verbatim>\<open>undefined\<close>, stores \<^verbatim>\<open>'' + key\<close>; a node made
  from props without a \<^verbatim>\<open>key\<close>, or with \<^verbatim>\<open>key: undefined\<close>, has no key. For a key that
  cannot be turned into a string (an object, which the type of \<^verbatim>\<open>key\<close> excludes) the
  result is the exception of the conversion.
\<close>

definition node_key :: "ReactNode \<Rightarrow> error + string option" where
  "node_key n =
     (case node_props n ''key'' of
        None \<Rightarrow> Inr None
      | Some JSUndefined \<Rightarrow> Inr None
      | Some v \<Rightarrow> (case js_String v of Inl e \<Rightarrow> Inl e | Inr s \<Rightarrow> Inr (Some s)))"

text \<open>The properties of a node other than the key.\<close>

definition non_key_props :: "ReactNode \<Rightarrow> attrs" where
  "non_key_props n = node_props n |` (- {''key''})"

section \<open>Notions the properties are stated with\<close>

text \<open>
  The attribute objects of the elements of one kind, in the order in which those elements
  stand in the sequence.
\<close>

definition attributes_of_kind :: "kind \<Rightarrow> HeadElement list \<Rightarrow> attrs list" where
  "attributes_of_kind k es = map attributes (filter (\<lambda>e. type e = k) es)"

text \<open>The output key that belongs to a kind.\<close>

fun bucket_of :: "kind \<Rightarrow> HeadTanStackRouterAdapterResult \<Rightarrow> attrs list option" where
  "bucket_of Meta r = meta r"
| "bucket_of Link r = links r"
| "bucket_of Script r = scripts r"
| "bucket_of Style r = styles r"

text \<open>The number of attribute objects in the four buckets together.\<close>

definition bucket_size :: "attrs list option \<Rightarrow> nat" where
  "bucket_size b = (case b of None \<Rightarrow> 0 | Some l \<Rightarrow> length l)"

definition total_count :: "HeadTanStackRouterAdapterResult \<Rightarrow> nat" where
  "total_count r =
     bucket_size (meta r) + bucket_size (links r) + bucket_size (scripts r)
       + bucket_size (styles r)"

text \<open>
  A sequence of three declarations: a description \<^verbatim>\<open>meta\<close>, a canonical \<^verbatim>\<open>link\<close> and
  a character-set \<^verbatim>\<open>meta\<close>.
\<close>

definition example_elements :: "HeadElement list" where
  "example_elements =
     [\<lparr>type = Meta,
       attributes = [''name'' \<mapsto> JSString ''description'', ''content'' \<mapsto> JSString ''x'']\<rparr>,
      \<lparr>type = Link,
       attributes = [''rel'' \<mapsto> JSString ''canonical'', ''href'' \<mapsto> JSString ''/a'']\<rparr>,
      \<lparr>type = Meta, attributes = [''charSet'' \<mapsto> JSString ''utf-8'']\<rparr>]"

section \<open>The builders accumulate the calls in order\<close>

lemma index_call_elements:
  "index_elements (index_call b c) = index_elements b @ [appended c]"
  by (cases c)
     (simp_all add: index_addMeta_def index_addLink_def index_addScript_def
        index_addStyle_def index_addElement_def)

lemma index_call_metadataBase:
  "index_metadataBase (index_call b c) = index_metadataBase b"
  by (cases c)
     (simp_all add: index_addMeta_def index_addLink_def index_addScript_def
        index_addStyle_def index_addElement_def)

lemma index_calls_elements:
  "index_elements (index_calls b cs) = index_elements b @ map appended cs"
  unfolding index_calls_def
  by (induction cs arbitrary: b) (simp_all add: index_call_elements)

lemma index_calls_metadataBase:
  "index_metadataBase (index_calls b cs) = index_metadataBase b"
  unfolding index_calls_def
  by (induction cs arbitrary: b) (simp_all add: index_call_metadataBase)

lemma call_elements: "elements (call b c) = elements b @ [appended c]"
  by (cases c)
     (simp_all add: addMeta_def addLink_def addScript_def addStyle_def addElement_def)

lemma call_metadataBase: "metadataBase (call b c) = metadataBase b"
  by (cases c)
     (simp_all add: addMeta_def addLink_def addScript_def addStyle_def addElement_def)

lemma call_adapter: "adapter (call b c) = adapter b"
  by (cases c)
     (simp_all add: addMeta_def addLink_def addScript_def addStyle_def addElement_def)

lemma calls_elements: "elements (calls b cs) = elements b @ map appended cs"
  unfolding calls_def
  by (induction cs arbitrary: b) (simp_all add: call_elements)

lemma calls_metadataBase: "metadataBase (calls b cs) = metadataBase b"
  unfolding calls_def
  by (induction cs arbitrary: b) (simp_all add: call_metadataBase)

lemma calls_adapter: "adapter (calls b cs) = adapter b"
  unfolding calls_def
  by (induction cs arbitrary: b) (simp_all add: call_adapter)

text \<open>
  C1. Whatever add-calls are made, in whatever order, \<^verbatim>\<open>build()\<close> on a builder that was
  constructed without an adapter returns the records of the appended (kind, attributes)
  pairs, one per call and in call order: nothing is reordered, dropped or merged. This
  holds for the raw builder and for the adapter-capable builder, whether the latter was
  given no options at all or options without an adapter.
\<close>

theorem build_without_adapter_is_call_sequence:
  "fst (index_build (index_calls (index_constructor mb) cs)) = map appended cs
   \<and> fst (build (calls (HeadBuilder_constructor None) cs)) = Elements (map appended cs)
   \<and> fst (build (calls (HeadBuilder_constructor
            (Some \<lparr>opt_metadataBase = mb, opt_adapter = None\<rparr>)) cs))
       = Elements (map appended cs)"
  by (simp add: index_build_def index_calls_elements index_constructor_def
        build_def calls_elements calls_adapter HeadBuilder_constructor_def)

section \<open>The grouping adapter\<close>

lemma classify_meta:
  "meta (classify c e) =
     (if type e = Meta then push_optional (meta c) (attributes e) else meta c)"
  by (simp add: classify_def isElementOfType_def)

lemma classify_links:
  "links (classify c e) =
     (if type e = Link then push_optional (links c) (attributes e) else links c)"
  by (simp add: classify_def isElementOfType_def)

lemma classify_scripts:
  "scripts (classify c e) =
     (if type e = Script then push_optional (scripts c) (attributes e) else scripts c)"
  by (simp add: classify_def isElementOfType_def)

lemma classify_styles:
  "styles (classify c e) =
     (if type e = Style then push_optional (styles c) (attributes e) else styles c)"
  by (simp add: classify_def isElementOfType_def)

text \<open>The loop, started from any record: each bucket that exists grows by its kind.\<close>

lemma foldl_classify_meta:
  "meta (foldl classify c es) =
     (case meta c of None \<Rightarrow> None | Some l \<Rightarrow> Some (l @ attributes_of_kind Meta es))"
  by (induction es arbitrary: c)
     (auto simp: attributes_of_kind_def classify_meta push_optional_def split: option.splits)

lemma foldl_classify_links:
  "links (foldl classify c es) =
     (case links c of None \<Rightarrow> None | Some l \<Rightarrow> Some (l @ attributes_of_kind Link es))"
  by (induction es arbitrary: c)
     (auto simp: attributes_of_kind_def classify_links push_optional_def split: option.splits)

lemma foldl_classify_scripts:
  "scripts (foldl classify c es) =
     (case scripts c of None \<Rightarrow> None | Some l \<Rightarrow> Some (l @ attributes_of_kind Script es))"
  by (induction es arbitrary: c)
     (auto simp: attributes_of_kind_def classify_scripts push_optional_def split: option.splits)

lemma foldl_classify_styles:
  "styles (foldl classify c es) =
     (case styles c of None \<Rightarrow> None | Some l \<Rightarrow> Some (l @ attributes_of_kind Style es))"
  by (induction es arbitrary: c)
     (auto simp: attributes_of_kind_def classify_styles push_optional_def split: option.splits)

lemma transform_bucket:
  "bucket_of k (HeadTanstackRouterAdapter_transform es) = Some (attributes_of_kind k es)"
  by (cases k)
     (simp_all add: HeadTanstackRouterAdapter_transform_def foldl_classify_meta
        foldl_classify_links foldl_classify_scripts foldl_classify_styles)

lemma kinds_partition:
  "length (attributes_of_kind Meta es) + length (attributes_of_kind Link es)
     + length (attributes_of_kind Script es) + length (attributes_of_kind Style es)
   = length es"
proof (induction es)
  case Nil
  show ?case by (simp add: attributes_of_kind_def)
next
  case (Cons e es)
  then show ?case by (cases "type e") (simp_all add: attributes_of_kind_def)
qed

lemma transform_fields:
  "meta (HeadTanstackRouterAdapter_transform es) = Some (attributes_of_kind Meta es)"
  "links (HeadTanstackRouterAdapter_transform es) = Some (attributes_of_kind Link es)"
  "scripts (HeadTanstackRouterAdapter_transform es) = Some (attributes_of_kind Script es)"
  "styles (HeadTanstackRouterAdapter_transform es) = Some (attributes_of_kind Style es)"
  using transform_bucket [of Meta es] transform_bucket [of Link es]
    transform_bucket [of Script es] transform_bucket [of Style es]
  by simp_all

lemma transform_total: "total_count (HeadTanstackRouterAdapter_transform es) = length es"
  using kinds_partition [of es]
  by (simp add: total_count_def bucket_size_def transform_fields)

lemma adapter_is_transform:
  "HeadTanstackRouterAdapter_adapter es = HeadTanstackRouterAdapter_transform es"
  by (simp add: HeadTanstackRouterAdapter_adapter_def
        HeadTanstackRouterAdapter_static_adapter_def HeadTanstackRouterAdapter_transform_def)

lemma no_element_of_kind:
  "(\<forall>e \<in> set es. type e \<noteq> k) \<Longrightarrow> attributes_of_kind k es = []"
  by (induction es) (simp_all add: attributes_of_kind_def)

text \<open>
  C2. For every declaration sequence, the grouping adapter puts the attribute objects of
  each kind into the bucket of that kind, in the order in which they stand in the input:
  the bucket of kind \<open>k\<close> is the list of the attributes of the input's elements of kind
  \<open>k\<close>. The four buckets together hold as many attribute objects as the input has
  elements. The adapter with the method \<^verbatim>\<open>transform\<close> and the one with the method
  \<^verbatim>\<open>adapter\<close> return the same record.
\<close>

theorem grouping_adapter_buckets_by_kind_in_order:
  "bucket_of k (HeadTanstackRouterAdapter_transform es) = Some (attributes_of_kind k es)
   \<and> total_count (HeadTanstackRouterAdapter_transform es) = length es
   \<and> HeadTanstackRouterAdapter_adapter es = HeadTanstackRouterAdapter_transform es"
  by (simp add: transform_bucket transform_total adapter_is_transform)

theorem grouping_adapter_example:
  "bucket_of Meta (HeadTanstackRouterAdapter_transform example_elements)
     = Some [[''name'' \<mapsto> JSString ''description'', ''content'' \<mapsto> JSString ''x''],
             [''charSet'' \<mapsto> JSString ''utf-8'']]
   \<and> total_count (HeadTanstackRouterAdapter_transform example_elements) = 3"
  using grouping_adapter_buckets_by_kind_in_order [of Meta example_elements]
  by (simp add: example_elements_def attributes_of_kind_def)

text \<open>
  C3. For every declaration sequence, the record the grouping adapter returns has all
  four keys \<^verbatim>\<open>meta\<close>, \<^verbatim>\<open>links\<close>, \<^verbatim>\<open>scripts\<close> and \<^verbatim>\<open>styles\<close>, each bound to a list, and
  the key of a kind that no element of the input has is bound to the empty list. This
  holds for both versions of the adapter.
\<close>

theorem grouping_adapter_all_keys_present:
  "meta (HeadTanstackRouterAdapter_transform es) \<noteq> None
   \<and> links (HeadTanstackRouterAdapter_transform es) \<noteq> None
   \<and> scripts (HeadTanstackRouterAdapter_transform es) \<noteq> None
   \<and> styles (HeadTanstackRouterAdapter_transform es) \<noteq> None
   \<and> ((\<forall>e \<in> set es. type e \<noteq> k) \<longrightarrow>
        bucket_of k (HeadTanstackRouterAdapter_transform es) = Some [])
   \<and> HeadTanstackRouterAdapter_adapter es = HeadTanstackRouterAdapter_transform es"
  by (simp add: transform_fields transform_bucket no_element_of_kind adapter_is_transform)

theorem grouping_adapter_all_keys_present_witness:
  "scripts (HeadTanstackRouterAdapter_transform example_elements) = Some []
   \<and> scripts (HeadTanstackRouterAdapter_adapter example_elements) = Some []
   \<and> meta (HeadTanstackRouterAdapter_transform example_elements) \<noteq> None"
  using grouping_adapter_all_keys_present [of example_elements Script]
  by (simp add: example_elements_def)

section \<open>The element-tree adapter\<close>

lemma length_map_from: "length (map_from i f xs) = length xs"
  by (induction xs arbitrary: i) simp_all

lemma nth_map_from: "n < length xs \<Longrightarrow> map_from i f xs ! n = f (xs ! n) (i + n)"
proof (induction xs arbitrary: i n)
  case Nil
  then show ?case by simp
next
  case (Cons x xs)
  then show ?case by (cases n) simp_all
qed

lemma react_adapter_unfold:
  "HeadReactAdapter_adapter es =
     map_from 0 (\<lambda>element index.
        createElement (type element)
          ([''key'' \<mapsto> JSString (generated_key (type element) index)]
           ++ attributes element)) es"
  by (simp add: HeadReactAdapter_adapter_def HeadReactAdapter_static_adapter_def
        Array_map_def)

lemma react_adapter_length: "length (HeadReactAdapter_adapter es) = length es"
  by (simp add: react_adapter_unfold length_map_from)

lemma react_adapter_nth:
  "i < length es \<Longrightarrow>
   HeadReactAdapter_adapter es ! i =
     \<lparr>node_type = type (es ! i),
      node_props = [''key'' \<mapsto> JSString (generated_key (type (es ! i)) i)]
                   ++ attributes (es ! i)\<rparr>"
  by (simp add: react_adapter_unfold nth_map_from createElement_def)

text \<open>What the spread leaves of the written key, and of the other properties.\<close>

lemma spread_key:
  "([''key'' \<mapsto> v] ++ a) ''key'' = (case a ''key'' of None \<Rightarrow> Some v | Some w \<Rightarrow> Some w)"
  by (simp add: map_add_def split: option.splits)

lemma spread_without_key: "([''key'' \<mapsto> v] ++ a) |` (- {''key''}) = a |` (- {''key''})"
  by (rule ext) (simp add: restrict_map_def map_add_def split: option.splits)

lemma restrict_without_key: "''key'' \<notin> dom a \<Longrightarrow> a |` (- {''key''}) = a"
  by (rule ext) (auto simp: restrict_map_def)

text \<open>The decimal text of an index determines the index.\<close>

lemma digit_char_inj: "a < 10 \<Longrightarrow> b < 10 \<Longrightarrow> digit_char a = digit_char b \<Longrightarrow> a = b"
proof -
  assume a: "a < 10" and b: "b < 10" and e: "digit_char a = digit_char b"
  have A: "a \<in> {0, 1, 2, 3, 4, 5, 6, 7, 8, 9}" using a by auto
  have B: "b \<in> {0, 1, 2, 3, 4, 5, 6, 7, 8, 9}" using b by auto
  show ?thesis using A B e by (auto simp: digit_char_def)
qed

lemma string_of_index_nonempty: "string_of_index n \<noteq> []"
  by (subst string_of_index.simps) simp

lemma string_of_index_small: "n < 10 \<Longrightarrow> string_of_index n = [digit_char n]"
  by (subst string_of_index.simps) simp

lemma string_of_index_large:
  "\<not> n < 10 \<Longrightarrow> string_of_index n = string_of_index (n div 10) @ [digit_char (n mod 10)]"
  by (subst string_of_index.simps) simp

lemma string_of_index_inj: "string_of_index n = string_of_index m \<Longrightarrow> n = m"
proof (induction n arbitrary: m rule: string_of_index.induct)
  case (1 n)
  show ?case
  proof (cases "n < 10")
    case True
    note n = this
    show ?thesis
    proof (cases "m < 10")
      case True
      with n "1.prems" show ?thesis
        by (simp add: string_of_index_small digit_char_inj)
    next
      case False
      with n "1.prems" string_of_index_nonempty [of "m div 10"] show ?thesis
        by (auto simp: string_of_index_small string_of_index_large)
    qed
  next
    case False
    note n = this
    show ?thesis
    proof (cases "m < 10")
      case True
      with n "1.prems" string_of_index_nonempty [of "n div 10"] show ?thesis
        by (auto simp: string_of_index_small string_of_index_large)
    next
      case False
      with n "1.prems" have e: "string_of_index (n div 10) = string_of_index (m div 10)"
        and d: "digit_char (n mod 10) = digit_char (m mod 10)"
        by (simp_all add: string_of_index_large)
      from "1.IH" [OF n e] have q: "n div 10 = m div 10" .
      from d have r: "n mod 10 = m mod 10" by (simp add: digit_char_inj)
      from q r show ?thesis by (metis div_mult_mod_eq)
    qed
  qed
qed

lemma generated_key_inj:
  "generated_key k i = generated_key k' j \<Longrightarrow> k = k' \<and> i = j"
  unfolding generated_key_def
  by (cases k; cases k') (auto dest: string_of_index_inj)

lemma generated_key_examples:
  "generated_key Meta 0 = ''head-meta-0''"
  "generated_key Link (Suc 0) = ''head-link-1''"
  "generated_key Meta 2 = ''head-meta-2''"
  by (simp_all add: generated_key_def string_of_index_small digit_char_def)

text \<open>
  C4. As stated, the claim fails where an element's attributes have a \<^verbatim>\<open>key\<close> entry
  of their own: that entry is then the node's key, so the node's non-key properties are
  not the whole attributes object.
\<close>

theorem react_adapter_props_counterexample:
  "non_key_props (HeadReactAdapter_adapter
      [\<lparr>type = Meta, attributes = [''key'' \<mapsto> JSString ''k'']\<rparr>] ! 0)
   \<noteq> attributes \<lparr>type = Meta, attributes = [''key'' \<mapsto> JSString ''k'']\<rparr>"
proof
  assume "non_key_props (HeadReactAdapter_adapter
      [\<lparr>type = Meta, attributes = [''key'' \<mapsto> JSString ''k'']\<rparr>] ! 0)
   = attributes \<lparr>type = Meta, attributes = [''key'' \<mapsto> JSString ''k'']\<rparr>"
  then have "non_key_props (HeadReactAdapter_adapter
      [\<lparr>type = Meta, attributes = [''key'' \<mapsto> JSString ''k'']\<rparr>] ! 0) ''key''
   = attributes \<lparr>type = Meta, attributes = [''key'' \<mapsto> JSString ''k'']\<rparr> ''key''"
    by simp
  then show False
    by (simp add: react_adapter_nth non_key_props_def)
qed

text \<open>
  C4, amended. For every declaration sequence, the element-tree adapter returns a
  sequence of the same length and order as the input; at every position \<open>i\<close> the node's
  element type is the input element's kind, and the node's non-key properties are the
  input element's attributes without their \<^verbatim>\<open>key\<close> entry: exactly the attributes when
  these have no \<^verbatim>\<open>key\<close> entry.
\<close>

theorem react_adapter_maps_one_to_one:
  "length (HeadReactAdapter_adapter es) = length es
   \<and> (i < length es \<longrightarrow>
        node_type (HeadReactAdapter_adapter es ! i) = type (es ! i)
        \<and> non_key_props (HeadReactAdapter_adapter es ! i)
            = attributes (es ! i) |` (- {''key''})
        \<and> (''key'' \<notin> dom (attributes (es ! i)) \<longrightarrow>
             non_key_props (HeadReactAdapter_adapter es ! i) = attributes (es ! i)))"
  by (simp add: react_adapter_length react_adapter_nth non_key_props_def
        spread_without_key restrict_without_key)

theorem react_adapter_maps_one_to_one_witness:
  "1 < length example_elements
   \<and> ''key'' \<notin> dom (attributes (example_elements ! 1))
   \<and> length (HeadReactAdapter_adapter example_elements) = 3
   \<and> node_type (HeadReactAdapter_adapter example_elements ! 1) = Link
   \<and> non_key_props (HeadReactAdapter_adapter example_elements ! 1)
       = [''rel'' \<mapsto> JSString ''canonical'', ''href'' \<mapsto> JSString ''/a'']"
  using react_adapter_maps_one_to_one [of example_elements 1]
  by (simp add: example_elements_def)

lemma js_String_string: "js_String (JSString s) = Inr s"
  by simp

lemma node_key_generated:
  "a ''key'' = None \<Longrightarrow>
   node_key \<lparr>node_type = t, node_props = [''key'' \<mapsto> JSString g] ++ a\<rparr> = Inr (Some g)"
  by (simp add: node_key_def spread_key)

text \<open>
  C5. As stated, the claim fails where attributes have a \<^verbatim>\<open>key\<close> entry: the node gets
  that key and not the generated one, and two elements with the same \<^verbatim>\<open>key\<close> entry
  give two nodes with the same key.
\<close>

theorem react_adapter_key_counterexample:
  "node_key (HeadReactAdapter_adapter
      [\<lparr>type = Meta, attributes = [''key'' \<mapsto> JSString ''k'']\<rparr>,
       \<lparr>type = Link, attributes = [''key'' \<mapsto> JSString ''k'']\<rparr>] ! 0)
     \<noteq> Inr (Some ''head-meta-0'')
   \<and> \<not> distinct (map node_key (HeadReactAdapter_adapter
      [\<lparr>type = Meta, attributes = [''key'' \<mapsto> JSString ''k'']\<rparr>,
       \<lparr>type = Link, attributes = [''key'' \<mapsto> JSString ''k'']\<rparr>]))"
  by (simp add: react_adapter_unfold node_key_def createElement_def)

text \<open>
  C5, amended. For every declaration sequence, the node at position \<open>i\<close> of kind \<open>k\<close>
  has the key \<^verbatim>\<open>head-{k}-{i}\<close>, which is determined by \<open>(k, i)\<close>, provided the
  element's attributes have no \<^verbatim>\<open>key\<close> entry of their own. When no element's attributes
  have a \<^verbatim>\<open>key\<close> entry, the keys of the output nodes are pairwise distinct.
\<close>

theorem react_adapter_generated_keys:
  "(i < length es \<and> ''key'' \<notin> dom (attributes (es ! i)) \<longrightarrow>
      node_key (HeadReactAdapter_adapter es ! i)
        = Inr (Some (generated_key (type (es ! i)) i)))
   \<and> ((\<forall>e \<in> set es. ''key'' \<notin> dom (attributes e)) \<longrightarrow>
        distinct (map node_key (HeadReactAdapter_adapter es)))"
proof (intro conjI impI)
  assume "i < length es \<and> ''key'' \<notin> dom (attributes (es ! i))"
  then have i: "i < length es" and "attributes (es ! i) ''key'' = None"
    by (auto simp: dom_def)
  then show "node_key (HeadReactAdapter_adapter es ! i)
               = Inr (Some (generated_key (type (es ! i)) i))"
    by (simp add: react_adapter_nth node_key_generated)
next
  assume nokey: "\<forall>e \<in> set es. ''key'' \<notin> dom (attributes e)"
  have key: "node_key (HeadReactAdapter_adapter es ! n)
               = Inr (Some (generated_key (type (es ! n)) n))"
    if "n < length es" for n
  proof -
    from that nokey have "attributes (es ! n) ''key'' = None"
      by (auto simp: dom_def)
    with that show ?thesis by (simp add: react_adapter_nth node_key_generated)
  qed
  show "distinct (map node_key (HeadReactAdapter_adapter es))"
    unfolding distinct_conv_nth
  proof (intro allI impI)
    fix a b
    assume "a < length (map node_key (HeadReactAdapter_adapter es))"
      and "b < length (map node_key (HeadReactAdapter_adapter es))" and ab: "a \<noteq> b"
    then have a: "a < length es" and b: "b < length es"
      by (simp_all add: react_adapter_length)
    have "node_key (HeadReactAdapter_adapter es ! a)
            \<noteq> node_key (HeadReactAdapter_adapter es ! b)"
    proof
      assume "node_key (HeadReactAdapter_adapter es ! a)
                = node_key (HeadReactAdapter_adapter es ! b)"
      with key [OF a] key [OF b]
      have "generated_key (type (es ! a)) a = generated_key (type (es ! b)) b" by simp
      then have "a = b" by (rule generated_key_inj [THEN conjunct2])
      with ab show False by simp
    qed
    with a b show "map node_key (HeadReactAdapter_adapter es) ! a
                   \<noteq> map node_key (HeadReactAdapter_adapter es) ! b"
      by (simp add: react_adapter_length)
  qed
qed

theorem react_adapter_generated_keys_witness:
  "1 < length example_elements
   \<and> node_key (HeadReactAdapter_adapter example_elements ! 1) = Inr (Some ''head-link-1'')
   \<and> distinct (map node_key (HeadReactAdapter_adapter example_elements))"
  using react_adapter_generated_keys [of 1 example_elements]
  by (simp add: example_elements_def generated_key_examples)

section \<open>Building\<close>

lemma constructor_fields:
  "elements (HeadBuilder_constructor opts) = []"
  "adapter (HeadBuilder_constructor None) = None"
  "adapter (HeadBuilder_constructor (Some p)) = opt_adapter p"
  "metadataBase (HeadBuilder_constructor None) = None"
  "metadataBase (HeadBuilder_constructor (Some p)) = opt_metadataBase p"
  by (simp_all add: HeadBuilder_constructor_def)

lemma index_constructor_fields:
  "index_elements (index_constructor mb) = []"
  "index_metadataBase (index_constructor mb) = mb"
  by (simp_all add: index_constructor_def)

lemma build_after_calls:
  "fst (build (calls b cs))
     = (case adapter b of
          Some t \<Rightarrow> Adapted (t (elements b @ map appended cs))
        | None \<Rightarrow> Elements (elements b @ map appended cs))"
  by (simp add: build_def calls_elements calls_adapter split: option.splits)

lemma index_build_after_calls:
  "fst (index_build (index_calls b cs)) = index_elements b @ map appended cs"
  by (simp add: index_build_def index_calls_elements)

text \<open>
  C6. Whatever add-calls are made on an adapter-capable builder: if an adapter was given
  to the constructor, \<^verbatim>\<open>build()\<close> returns that adapter's \<^verbatim>\<open>transform\<close> applied to the
  accumulated declaration sequence; if none was given (no options, or options without an
  adapter), \<^verbatim>\<open>build()\<close> returns the declaration sequence itself, in order.
\<close>

theorem build_applies_adapter_when_given:
  "elements (calls (HeadBuilder_constructor opts) cs) = map appended cs
   \<and> fst (build (calls (HeadBuilder_constructor
            (Some \<lparr>opt_metadataBase = mb, opt_adapter = Some t\<rparr>)) cs))
       = Adapted (t (map appended cs))
   \<and> fst (build (calls (HeadBuilder_constructor
            (Some \<lparr>opt_metadataBase = mb, opt_adapter = None\<rparr>)) cs))
       = Elements (map appended cs)
   \<and> fst (build (calls (HeadBuilder_constructor None) cs)) = Elements (map appended cs)"
  by (simp add: build_after_calls calls_elements constructor_fields)

text \<open>
  C7. For every builder, of either variant and in any state: \<^verbatim>\<open>build()\<close> leaves the
  builder as it was, so the declaration sequence is neither consumed nor reset; a second
  \<^verbatim>\<open>build()\<close> right after the first returns the same result; and a \<^verbatim>\<open>build()\<close> after
  further add-calls returns the result for the sequence as it then is, the earlier
  declarations followed by the new ones.
\<close>

theorem build_is_idempotent_and_keeps_the_sequence:
  "snd (index_build b) = b
   \<and> fst (index_build (snd (index_build b))) = fst (index_build b)
   \<and> fst (index_build (index_calls (snd (index_build b)) cs))
       = fst (index_build b) @ map appended cs
   \<and> snd (build c) = c
   \<and> fst (build (snd (build c))) = fst (build c)
   \<and> fst (build (calls (snd (build c)) cs))
       = (case adapter c of
            Some t \<Rightarrow> Adapted (t (elements c @ map appended cs))
          | None \<Rightarrow> Elements (elements c @ map appended cs))"
proof -
  have s: "snd (build c) = c"
    by (simp add: build_def split: option.splits)
  have i: "snd (index_build b) = b" "fst (index_build b) = index_elements b"
    by (simp_all add: index_build_def)
  show ?thesis
    by (simp add: s i build_after_calls index_build_after_calls)
qed

text \<open>
  C8. The raw builder and the adapter-capable builder differ only in how \<^verbatim>\<open>build()\<close>
  returns: each add-call appends the same record in both, so after the same calls both
  hold the same declaration sequence, whatever options the adapter-capable builder was
  constructed with; and constructed without an adapter, its \<^verbatim>\<open>build()\<close> returns the list
  that the raw builder's \<^verbatim>\<open>build()\<close> returns.
\<close>

theorem builder_variants_agree:
  "index_elements (index_call b c) = index_elements b @ [appended c]
   \<and> elements (call b' c) = elements b' @ [appended c]
   \<and> elements (calls (HeadBuilder_constructor opts) cs)
       = index_elements (index_calls (index_constructor mb) cs)
   \<and> fst (build (calls (HeadBuilder_constructor None) cs))
       = Elements (fst (index_build (index_calls (index_constructor mb) cs)))
   \<and> fst (build (calls (HeadBuilder_constructor
            (Some \<lparr>opt_metadataBase = mb', opt_adapter = None\<rparr>)) cs))
       = Elements (fst (index_build (index_calls (index_constructor mb) cs)))"
  by (simp add: index_call_elements call_elements build_after_calls
        index_build_after_calls calls_elements index_calls_elements constructor_fields
        index_constructor_fields)

text \<open>
  C9. \<^verbatim>\<open>getMetadataBase()\<close> returns the base URL given to the constructor, and
  \<^verbatim>\<open>undefined\<close> when none was given, also after any add-calls. The base URL has no
  effect on the declarations: two builders that differ only in their base URL and receive
  the same add-calls hold the same declaration sequence and return the same from
  \<^verbatim>\<open>build()\<close>.
\<close>

theorem metadataBase_is_returned_and_never_applied:
  "index_getMetadataBase (index_calls (index_constructor mb) cs) = mb
   \<and> getMetadataBase (calls (HeadBuilder_constructor
        (Some \<lparr>opt_metadataBase = mb, opt_adapter = ad\<rparr>)) cs) = mb
   \<and> getMetadataBase (calls (HeadBuilder_constructor None) cs) = None
   \<and> fst (index_build (index_calls (index_constructor mb) cs))
       = fst (index_build (index_calls (index_constructor mb') cs))
   \<and> elements (calls (HeadBuilder_constructor
        (Some \<lparr>opt_metadataBase = mb, opt_adapter = ad\<rparr>)) cs)
       = elements (calls (HeadBuilder_constructor
        (Some \<lparr>opt_metadataBase = mb', opt_adapter = ad\<rparr>)) cs)
   \<and> fst (build (calls (HeadBuilder_constructor
        (Some \<lparr>opt_metadataBase = mb, opt_adapter = ad\<rparr>)) cs))
       = fst (build (calls (HeadBuilder_constructor
        (Some \<lparr>opt_metadataBase = mb', opt_adapter = ad\<rparr>)) cs))"
  by (simp add: index_getMetadataBase_def getMetadataBase_def index_calls_metadataBase
        calls_metadataBase index_build_after_calls build_after_calls calls_elements
        constructor_fields index_constructor_fields split: option.splits)

section \<open>Reading the children\<close>







end
